theory Spec2Isabelle
  imports Complex_Main
begin

section \<open>Numbers\<close>

text \<open>
  The strategy computes on Go \<open>float64\<close> values and on \<open>fixedpoint.Value\<close>s of the
  bbgo library. Floats are read here in exact arithmetic: a finite number is a \<open>real\<close>,
  with no rounding and no overflow. What exact arithmetic cannot say is written out:

  \<^item> a \<open>float64\<close> that the code obtains by dividing by zero is \<open>NaN\<close> or an infinity.
    Such a value is \<open>NonFinite\<close>. Every operation the strategy applies to it (a
    subtraction, a multiplication or a division by a finite number, \<open>math.Abs\<close>) gives
    a non-finite value again, and \<open>math.Abs x < t\<close> is false for it (the absolute value
    is \<open>+Inf\<close> or \<open>NaN\<close>).
  \<^item> a slice that can only hold finite numbers (prices and quantities come from
    fixed-point values, market caps from the data source) is a \<open>real list\<close>; a slice
    that may hold the result of a division is a \<open>float64 list\<close>.
  \<^item> a \<open>fixedpoint.Value\<close> is a signed 64-bit integer that counts units of \<open>10\<^sup>-\<^sup>8\<close>
    (\<open>Validate\<close> compares one with \<open>0\<close>). \<open>Fixed q\<close> is the value \<open>q\<close>, a multiple of the
    unit. The conversion of a float that is not finite, or whose number of units is
    outside the 64-bit range, is a float-to-integer conversion whose result Go leaves
    to the implementation: the value is \<open>Unspecified\<close>, and so is every fixed-point
    value computed from it.
\<close>

datatype float64 = Finite real | NonFinite

datatype fixedpoint = Fixed real | Unspecified

fun fsub :: "float64 \<Rightarrow> float64 \<Rightarrow> float64" where
  "fsub (Finite a) (Finite b) = Finite (a - b)"
| "fsub _ _ = NonFinite"

fun fmul :: "float64 \<Rightarrow> real \<Rightarrow> float64" where
  "fmul (Finite a) k = Finite (a * k)"
| "fmul NonFinite k = NonFinite"

fun fdiv :: "float64 \<Rightarrow> real \<Rightarrow> float64" where
  "fdiv (Finite a) x = (if x = 0 then NonFinite else Finite (a / x))"
| "fdiv NonFinite x = NonFinite"

fun fabs :: "float64 \<Rightarrow> float64" where
  "fabs (Finite a) = Finite \<bar>a\<bar>"
| "fabs NonFinite = NonFinite"

fun flt :: "float64 \<Rightarrow> real \<Rightarrow> bool" where
  "flt (Finite a) t = (a < t)"
| "flt NonFinite t = False"

text \<open>Go's conversion of a float to an integer drops the fraction, towards zero.\<close>

definition Trunc :: "real \<Rightarrow> int" where
  "Trunc x = (if x < 0 then \<lceil>x\<rceil> else \<lfloor>x\<rfloor>)"

definition representable :: "int \<Rightarrow> bool" where
  "representable n \<longleftrightarrow> - (2 ^ 63) \<le> n \<and> n < 2 ^ 63"

text \<open>
  Modelled from the spec: \<open>fixedpoint.NewFromFloat\<close> of the library, missing from the
  sources. The spec has the quantity and the price of an order as the computed numbers
  and notes that a quantity can round to exactly zero (section 9): the conversion
  counts the whole units of \<open>10\<^sup>-\<^sup>8\<close> in the number and drops the rest.
\<close>

definition NewFromFloat :: "float64 \<Rightarrow> fixedpoint" where
  "NewFromFloat val =
     (case val of
        Finite a \<Rightarrow>
          if representable (Trunc (a * 10 ^ 8))
          then Fixed (real_of_int (Trunc (a * 10 ^ 8)) / 10 ^ 8)
          else Unspecified
      | NonFinite \<Rightarrow> Unspecified)"

text \<open>
  Modelled from the spec: the methods \<open>Abs\<close>, \<open>Mul\<close> and \<open>Div\<close> of \<open>fixedpoint.Value\<close>,
  missing from the sources: the absolute value, the product and the quotient, each
  converted to a fixed-point value again.
\<close>

fun AbsValue :: "fixedpoint \<Rightarrow> fixedpoint" where
  "AbsValue (Fixed a) = NewFromFloat (Finite \<bar>a\<bar>)"
| "AbsValue Unspecified = Unspecified"

fun MulValue :: "fixedpoint \<Rightarrow> fixedpoint \<Rightarrow> fixedpoint" where
  "MulValue (Fixed a) (Fixed b) = NewFromFloat (Finite (a * b))"
| "MulValue _ _ = Unspecified"

fun DivValue :: "fixedpoint \<Rightarrow> fixedpoint \<Rightarrow> fixedpoint" where
  "DivValue (Fixed a) (Fixed b) = NewFromFloat (fdiv (Finite a) b)"
| "DivValue _ _ = Unspecified"

section \<open>Slices\<close>

datatype panic = IndexOutOfRange | Panic string

text \<open>Go's \<open>s[i]\<close>: a read outside the slice panics.\<close>

definition sliceAt :: "'a list \<Rightarrow> nat \<Rightarrow> panic + 'a" where
  "sliceAt xs i = (if i < length xs then Inr (xs ! i) else Inl IndexOutOfRange)"

text \<open>
  The methods \<open>Sum\<close>, \<open>DivScalar\<close>, \<open>MulScalar\<close> and \<open>Mul\<close> of \<open>types.Float64Slice\<close>
  belong to the bbgo library and are not part of the sources. Each is modelled from
  the description of the vector utilities in the spec.
\<close>

text \<open>
  Modelled from the spec: \<open>Sum\<close> of the library, missing from the sources, is the
  arithmetic sum of all elements.
\<close>

definition Sum :: "real list \<Rightarrow> real" where
  "Sum s = sum_list s"

text \<open>
  Modelled from the spec: \<open>DivScalar\<close> of the library, missing from the sources, divides
  each element by the scalar, with no guard for a scalar of zero.
\<close>

definition DivScalar :: "real list \<Rightarrow> real \<Rightarrow> float64 list" where
  "DivScalar s x = map (\<lambda>v. fdiv (Finite v) x) s"

text \<open>
  Modelled from the spec: \<open>MulScalar\<close> of the library, missing from the sources,
  multiplies each element by the scalar.
\<close>

definition MulScalar :: "float64 list \<Rightarrow> real \<Rightarrow> float64 list" where
  "MulScalar s x = map (\<lambda>v. fmul v x) s"

text \<open>
  Modelled from the spec: \<open>Mul\<close> of the library, missing from the sources, is the
  elementwise product of two slices of equal length, of that length.
\<close>

definition Mul :: "real list \<Rightarrow> real list \<Rightarrow> real list" where
  "Mul s other = map2 (*) s other"

text \<open>
  \<open>Normalize\<close> of \<open>float_slice.go\<close>. The strategy calls the library's method of the same
  name, which the spec describes identically.
\<close>

definition Normalize :: "real list \<Rightarrow> float64 list" where
  "Normalize s = DivScalar s (Sum s)"

section \<open>The strategy\<close>

text \<open>
  The configuration fields of \<open>Strategy\<close>. The three \<open>fixedpoint.Value\<close> fields are
  read from the configuration and are finite. The collaborators (notifier, data
  source, order store) are not fields of the record: the data source is an argument
  of the function that queries it.
\<close>

record Strategy =
  Interval :: string
  BaseCurrency :: string
  BaseWeight :: real
  TargetCurrencies :: "string list"
  Threshold :: real
  IgnoreLocked :: bool
  Verbose :: bool
  DryRun :: bool
  MaxAmount :: real

datatype SideType = SideTypeBuy | SideTypeSell

datatype OrderType = OrderTypeLimit

text \<open>
  The fields of \<open>types.SubmitOrder\<close> that the strategy sets. The side is decided by the
  sign of the fixed-point quantity; where that quantity is \<open>Unspecified\<close> the side is
  unknown too, which is \<open>None\<close>.
\<close>

record SubmitOrder =
  Symbol :: string
  Side :: "SideType option"
  Type :: OrderType
  Quantity :: fixedpoint
  Price :: fixedpoint

subsection \<open>Validate\<close>

fun containsBaseCurrency :: "string \<Rightarrow> string list \<Rightarrow> bool" where
  "containsBaseCurrency base [] = False"
| "containsBaseCurrency base (c # cs) = (if c = base then True else containsBaseCurrency base cs)"

text \<open>The result is the error, \<open>None\<close> for Go's \<open>nil\<close>.\<close>

definition Validate :: "Strategy \<Rightarrow> string option" where
  "Validate s =
     (if length (TargetCurrencies s) = 0 then Some ''taretCurrencies should not be empty''
      else if containsBaseCurrency (BaseCurrency s) (TargetCurrencies s)
        then Some ''targetCurrencies contain baseCurrency''
      else if Threshold s < 0 then Some ''threshold should not less than 0''
      else if MaxAmount s < 0 then Some ''maxAmount shoud not less than 0''
      else None)"

subsection \<open>getTargetWeights\<close>

text \<open>
  The data source is a function from the currency to the answer of
  \<open>QueryMarketCapInUSD\<close>: an error of any type \<open>'e\<close>, or the market cap.
\<close>

fun queryMarketCaps :: "(string \<Rightarrow> 'e + real) \<Rightarrow> string list \<Rightarrow> real list \<Rightarrow> 'e + real list" where
  "queryMarketCaps query [] weights = Inr weights"
| "queryMarketCaps query (currency # rest) weights =
     (case query currency of
        Inl err \<Rightarrow> Inl err
      | Inr marketCap \<Rightarrow> queryMarketCaps query rest (weights @ [marketCap]))"

definition getTargetWeights :: "(string \<Rightarrow> 'e + real) \<Rightarrow> Strategy \<Rightarrow> 'e + float64 list" where
  "getTargetWeights query s =
     (case queryMarketCaps query (TargetCurrencies s) [] of
        Inl err \<Rightarrow> Inl err
      | Inr weights \<Rightarrow>
          Inr (MulScalar (Normalize weights) (1 - BaseWeight s) @ [Finite (BaseWeight s)]))"

subsection \<open>getPrices and getQuantities\<close>

text \<open>
  \<open>getPrices\<close> returns the prices read so far together with the error of the ticker
  query that failed, as the Go function does.
\<close>

fun queryPrices :: "(string \<Rightarrow> 'e + real) \<Rightarrow> string \<Rightarrow> string list \<Rightarrow> real list \<Rightarrow> real list \<times> 'e option" where
  "queryPrices ticker base [] prices = (prices @ [1], None)"
| "queryPrices ticker base (currency # rest) prices =
     (case ticker (currency @ base) of
        Inl err \<Rightarrow> (prices, Some err)
      | Inr lastPrice \<Rightarrow> queryPrices ticker base rest (prices @ [lastPrice]))"

definition getPrices :: "(string \<Rightarrow> 'e + real) \<Rightarrow> Strategy \<Rightarrow> real list \<times> 'e option" where
  "getPrices ticker s = queryPrices ticker (BaseCurrency s) (TargetCurrencies s) []"

record Balance =
  Available :: real
  Locked :: real

definition Total :: "Balance \<Rightarrow> real" where
  "Total b = Available b + Locked b"

text \<open>A Go map read of a missing key gives the zero value.\<close>

definition balanceOf :: "(string \<rightharpoonup> Balance) \<Rightarrow> string \<Rightarrow> Balance" where
  "balanceOf balances currency =
     (case balances currency of None \<Rightarrow> \<lparr>Available = 0, Locked = 0\<rparr> | Some b \<Rightarrow> b)"

definition quantityOf :: "Strategy \<Rightarrow> (string \<rightharpoonup> Balance) \<Rightarrow> string \<Rightarrow> real" where
  "quantityOf s balances currency =
     (if IgnoreLocked s then Total (balanceOf balances currency)
      else Available (balanceOf balances currency))"

definition getQuantities :: "Strategy \<Rightarrow> (string \<rightharpoonup> Balance) \<Rightarrow> real list" where
  "getQuantities s balances =
     map (quantityOf s balances) (TargetCurrencies s) @ [quantityOf s balances (BaseCurrency s)]"

subsection \<open>generateSubmitOrders\<close>

text \<open>
  Modelled from the spec: \<open>bbgo.AdjustQuantityByMaxAmount\<close> of the library, missing
  from the sources. The spec: cap the traded quantity so that quantity times price is
  at most the maximum amount; if the uncapped notional exceeds the maximum amount,
  reduce the quantity proportionally to the cap. The notional, the ratio of the maximum
  amount to the notional and the reduced quantity are fixed-point values.
\<close>

fun AdjustQuantityByMaxAmount :: "fixedpoint \<Rightarrow> fixedpoint \<Rightarrow> fixedpoint \<Rightarrow> fixedpoint" where
  "AdjustQuantityByMaxAmount quantity currentPrice (Fixed maxAmount) =
     (case MulValue currentPrice quantity of
        Unspecified \<Rightarrow> Unspecified
      | Fixed amount \<Rightarrow>
          if maxAmount < amount
          then MulValue quantity (DivValue (Fixed maxAmount) (Fixed amount))
          else quantity)"
| "AdjustQuantityByMaxAmount quantity currentPrice Unspecified = Unspecified"

text \<open>
  The body of the loop after the three slice reads: \<open>None\<close> is the \<open>continue\<close> of the
  dead band, \<open>Some order\<close> the order that is appended.
\<close>

definition submitOrderFor :: "Strategy \<Rightarrow> string \<Rightarrow> float64 \<Rightarrow> real \<Rightarrow> float64 \<Rightarrow> real \<Rightarrow> SubmitOrder option" where
  "submitOrderFor s currency currentWeight currentPrice targetWeight totalValue =
     (let symbol = currency @ BaseCurrency s;
          weightDifference = fsub targetWeight currentWeight
      in if flt (fabs weightDifference) (Threshold s) then None
         else
           (let quantity0 = NewFromFloat (fdiv (fmul weightDifference totalValue) currentPrice);
                (side, quantity1) =
                  (case quantity0 of
                     Unspecified \<Rightarrow> (None, Unspecified)
                   | Fixed q \<Rightarrow>
                       if q < 0 then (Some SideTypeSell, AbsValue (Fixed q))
                       else (Some SideTypeBuy, Fixed q));
                quantity =
                  (if 0 < MaxAmount s
                   then AdjustQuantityByMaxAmount quantity1
                          (NewFromFloat (Finite currentPrice)) (Fixed (MaxAmount s))
                   else quantity1)
            in Some \<lparr>Symbol = symbol, Side = side, Type = OrderTypeLimit,
                     Quantity = quantity, Price = NewFromFloat (Finite currentPrice)\<rparr>))"

text \<open>
  The loop over the target currencies, with the index \<open>i\<close> of the current one and the
  orders appended so far. A read outside one of the three slices panics and nothing
  is returned.
\<close>

fun submitOrdersLoop ::
  "Strategy \<Rightarrow> real list \<Rightarrow> float64 list \<Rightarrow> real \<Rightarrow> float64 list \<Rightarrow> nat \<Rightarrow> string list
     \<Rightarrow> SubmitOrder list \<Rightarrow> panic + SubmitOrder list" where
  "submitOrdersLoop s prices currentWeights totalValue targetWeights i [] submitOrders =
     Inr submitOrders"
| "submitOrdersLoop s prices currentWeights totalValue targetWeights i (currency # rest) submitOrders =
     (case sliceAt currentWeights i of
        Inl p \<Rightarrow> Inl p
      | Inr currentWeight \<Rightarrow>
     (case sliceAt prices i of
        Inl p \<Rightarrow> Inl p
      | Inr currentPrice \<Rightarrow>
     (case sliceAt targetWeights i of
        Inl p \<Rightarrow> Inl p
      | Inr targetWeight \<Rightarrow>
     (case submitOrderFor s currency currentWeight currentPrice targetWeight totalValue of
        None \<Rightarrow>
          submitOrdersLoop s prices currentWeights totalValue targetWeights (Suc i) rest
            submitOrders
      | Some order \<Rightarrow>
          submitOrdersLoop s prices currentWeights totalValue targetWeights (Suc i) rest
            (submitOrders @ [order])))))"

definition generateSubmitOrders ::
  "Strategy \<Rightarrow> real list \<Rightarrow> real list \<Rightarrow> float64 list \<Rightarrow> panic + SubmitOrder list" where
  "generateSubmitOrders s prices marketValues targetWeights =
     submitOrdersLoop s prices (Normalize marketValues) (Sum marketValues) targetWeights 0
       (TargetCurrencies s) []"

subsection \<open>logAssets\<close>

text \<open>
  Only the panics of \<open>logAssets\<close> are modelled, the log lines are not. \<open>None\<close> is a
  normal return. Go's \<open>len(weights)-1\<close> is a signed subtraction.
\<close>

fun logAssetsLoop :: "float64 list \<Rightarrow> real list \<Rightarrow> nat \<Rightarrow> string list \<Rightarrow> panic option" where
  "logAssetsLoop weights quantities i [] = None"
| "logAssetsLoop weights quantities i (asset # rest) =
     (case sliceAt weights i of
        Inl p \<Rightarrow> Some p
      | Inr weight \<Rightarrow>
     (case sliceAt quantities i of
        Inl p \<Rightarrow> Some p
      | Inr qty \<Rightarrow> logAssetsLoop weights quantities (Suc i) rest))"

definition atInt :: "'a list \<Rightarrow> int \<Rightarrow> panic + 'a" where
  "atInt xs i = (if 0 \<le> i \<and> i < int (length xs) then Inr (xs ! nat i) else Inl IndexOutOfRange)"

definition logAssets :: "Strategy \<Rightarrow> real list \<Rightarrow> real list \<Rightarrow> real list \<Rightarrow> panic option" where
  "logAssets s marketValues prices quantities =
     (let weights = Normalize marketValues
      in if int (length weights) - 1 \<noteq> int (length (TargetCurrencies s))
         then Some (Panic ''len(weights)-1 != len(s.TargetCurrencies)'')
         else
           (case logAssetsLoop weights quantities 0 (TargetCurrencies s) of
              Some p \<Rightarrow> Some p
            | None \<Rightarrow>
           (case atInt weights (int (length weights) - 1) of
              Inl p \<Rightarrow> Some p
            | Inr weight \<Rightarrow>
           (case atInt quantities (int (length quantities) - 1) of
              Inl p \<Rightarrow> Some p
            | Inr qty \<Rightarrow> None))))"

section \<open>Example inputs\<close>

text \<open>
  The scenario of the spec: two target assets \<open>A\<close> and \<open>B\<close> with market caps 300 and
  700, a base weight of one fifth, prices 10 and 20, holdings 5, 1 and 50 of the base
  currency, a threshold of one twentieth. The second configuration has a threshold of
  zero; the third has one target asset, a threshold of zero and a maximum amount; the
  fourth lists an asset for which the example data source has no market cap.
\<close>

definition scenario :: Strategy where
  "scenario = \<lparr>Interval = ''1d'', BaseCurrency = ''USD'', BaseWeight = 1 / 5,
     TargetCurrencies = [''A'', ''B''], Threshold = 1 / 20, IgnoreLocked = False,
     Verbose = False, DryRun = False, MaxAmount = 30\<rparr>"

definition zeroThreshold :: Strategy where
  "zeroThreshold = \<lparr>Interval = ''1d'', BaseCurrency = ''USD'', BaseWeight = 1 / 5,
     TargetCurrencies = [''A'', ''B''], Threshold = 0, IgnoreLocked = False,
     Verbose = False, DryRun = False, MaxAmount = 0\<rparr>"

definition singleAsset :: Strategy where
  "singleAsset = \<lparr>Interval = ''1h'', BaseCurrency = ''USDT'', BaseWeight = 1 / 2,
     TargetCurrencies = [''BTC''], Threshold = 0, IgnoreLocked = True,
     Verbose = False, DryRun = True, MaxAmount = 100\<rparr>"

definition scenarioMarketCap :: "string \<Rightarrow> string + real" where
  "scenarioMarketCap currency =
     (if currency = ''A'' then Inr 300
      else if currency = ''B'' then Inr 700
      else Inl ''no market cap'')"

definition unlisted :: Strategy where
  "unlisted = \<lparr>Interval = ''1d'', BaseCurrency = ''USD'', BaseWeight = 1 / 5,
     TargetCurrencies = [''A'', ''XYZ'', ''B''], Threshold = 1 / 20, IgnoreLocked = False,
     Verbose = False, DryRun = False, MaxAmount = 30\<rparr>"

definition scenarioPrices :: "real list" where
  "scenarioPrices = [10, 20, 1]"

definition scenarioQuantities :: "real list" where
  "scenarioQuantities = [5, 1, 50]"

definition scenarioMarketValues :: "real list" where
  "scenarioMarketValues = [50, 20, 50]"

definition scenarioTargetWeights :: "float64 list" where
  "scenarioTargetWeights = [Finite (6 / 25), Finite (14 / 25), Finite (1 / 5)]"

definition balancedMarketValues :: "real list" where
  "balancedMarketValues = [24, 56, 20]"

definition driftedMarketValues :: "real list" where
  "driftedMarketValues = [24, 50, 26]"

text \<open>
  Holdings of one fixed-point unit of each asset; no holdings at all; and a
  configuration with a maximum amount of one half, an asset price of one eighth and a
  holding of the base currency only.
\<close>

definition dustQuantities :: "real list" where
  "dustQuantities = [1 / 10 ^ 8, 1 / 10 ^ 8, 1 / 10 ^ 8]"

definition dustMarketValues :: "real list" where
  "dustMarketValues = [1 / 10 ^ 7, 2 / 10 ^ 7, 1 / 10 ^ 8]"

definition emptyMarketValues :: "real list" where
  "emptyMarketValues = [0, 0, 0]"

definition halfCap :: Strategy where
  "halfCap = \<lparr>Interval = ''1h'', BaseCurrency = ''USDT'', BaseWeight = 1 / 2,
     TargetCurrencies = [''BTC''], Threshold = 0, IgnoreLocked = True,
     Verbose = False, DryRun = True, MaxAmount = 1 / 2\<rparr>"

definition halfCapPrices :: "real list" where
  "halfCapPrices = [1 / 8, 1]"

definition halfCapMarketValues :: "real list" where
  "halfCapMarketValues = [0, 100000001 / 10 ^ 8]"

section \<open>Facts about the slices and the loops\<close>

lemmas example_defs = scenario_def zeroThreshold_def singleAsset_def unlisted_def
  scenarioMarketCap_def scenarioPrices_def scenarioQuantities_def scenarioMarketValues_def
  scenarioTargetWeights_def balancedMarketValues_def driftedMarketValues_def
  dustQuantities_def dustMarketValues_def emptyMarketValues_def halfCap_def halfCapPrices_def
  halfCapMarketValues_def

lemmas run_defs = generateSubmitOrders_def sliceAt_def Normalize_def DivScalar_def MulScalar_def
  Sum_def submitOrderFor_def Let_def NewFromFloat_def Trunc_def representable_def

lemma length_Normalize: "length (Normalize v) = length v"
  by (simp add: Normalize_def DivScalar_def)

lemma zip_upt_nth: "zip [i..<i + length cs] cs = map (\<lambda>j. (j, cs ! (j - i))) [i..<i + length cs]"
  by (rule nth_equalityI) auto

lemma map_filter_map: "List.map_filter f (map g xs) = List.map_filter (f \<circ> g) xs"
  by (induction xs) (simp_all add: List.map_filter_simps split: option.split)

lemma submitOrdersLoop_returns:
  "i + length cs \<le> length cws \<Longrightarrow> i + length cs \<le> length prices \<Longrightarrow> i + length cs \<le> length tws \<Longrightarrow>
   submitOrdersLoop s prices cws totalValue tws i cs acc =
     Inr (acc @ List.map_filter
            (\<lambda>(j, c). submitOrderFor s c (cws ! j) (prices ! j) (tws ! j) totalValue)
            (zip [i..<i + length cs] cs))"
proof (induction cs arbitrary: i acc)
  case Nil
  show ?case by (simp add: List.map_filter_simps)
next
  case (Cons c cs)
  let ?F = "\<lambda>(j, c). submitOrderFor s c (cws ! j) (prices ! j) (tws ! j) totalValue"
  let ?rest = "List.map_filter ?F (zip [Suc i..<Suc i + length cs] cs)"
  have "[i..<i + length (c # cs)] = i # [Suc i..<Suc i + length cs]"
    by (subst upt_conv_Cons) simp_all
  then have unroll: "List.map_filter ?F (zip [i..<i + length (c # cs)] (c # cs)) =
      (case submitOrderFor s c (cws ! i) (prices ! i) (tws ! i) totalValue of
         None \<Rightarrow> ?rest | Some order \<Rightarrow> order # ?rest)"
    by (simp only: zip_Cons_Cons List.map_filter_simps prod.case)
  from Cons.prems have len: "Suc i + length cs \<le> length cws" "Suc i + length cs \<le> length prices"
    "Suc i + length cs \<le> length tws" by simp_all
  from Cons.prems have here: "i < length cws" "i < length prices" "i < length tws" by simp_all
  show ?case
    unfolding unroll
    using here by (simp add: sliceAt_def Cons.IH [OF len] split: option.split)
qed

lemma generateSubmitOrders_returns:
  assumes "length (TargetCurrencies s) \<le> length prices"
    and "length (TargetCurrencies s) \<le> length marketValues"
    and "length (TargetCurrencies s) \<le> length targetWeights"
  shows "generateSubmitOrders s prices marketValues targetWeights =
     Inr (List.map_filter
            (\<lambda>j. submitOrderFor s (TargetCurrencies s ! j) (Normalize marketValues ! j) (prices ! j)
                   (targetWeights ! j) (Sum marketValues))
            [0..<length (TargetCurrencies s)])"
proof -
  have n: "length (Normalize marketValues) = length marketValues"
    by (rule length_Normalize)
  have "generateSubmitOrders s prices marketValues targetWeights =
     Inr ([] @ List.map_filter
            (\<lambda>(j, c). submitOrderFor s c (Normalize marketValues ! j) (prices ! j) (targetWeights ! j) (Sum marketValues))
            (zip [0..<0 + length (TargetCurrencies s)] (TargetCurrencies s)))"
    unfolding generateSubmitOrders_def
    by (rule submitOrdersLoop_returns) (use assms n in simp_all)
  also have "zip [0..<0 + length (TargetCurrencies s)] (TargetCurrencies s) =
     map (\<lambda>j. (j, TargetCurrencies s ! (j - 0))) [0..<0 + length (TargetCurrencies s)]"
    by (rule zip_upt_nth)
  finally show ?thesis
    by (simp add: map_filter_map comp_def)
qed



lemma Normalize_nth:
  "i < length v \<Longrightarrow> Normalize v ! i = (if Sum v = 0 then NonFinite else Finite (v ! i / Sum v))"
  by (simp add: Normalize_def DivScalar_def)

lemma submitOrderFor_None_iff:
  "submitOrderFor s c cw p tw totalValue = None \<longleftrightarrow> flt (fabs (fsub tw cw)) (Threshold s)"
  by (simp add: submitOrderFor_def Let_def split: prod.split)

lemma submitOrderFor_fields:
  "submitOrderFor s c cw p tw totalValue = Some order \<Longrightarrow>
   Symbol order = c @ BaseCurrency s \<and> Type order = OrderTypeLimit \<and>
   Price order = NewFromFloat (Finite p)"
  by (auto simp: submitOrderFor_def Let_def split: prod.splits if_splits)

lemma map_filter_eq_Nil: "(\<And>x. x \<in> set xs \<Longrightarrow> f x = None) \<Longrightarrow> List.map_filter f xs = []"
  by (induction xs) (simp_all add: List.map_filter_simps)


lemma length_map_filter: "length (List.map_filter f xs) = length (filter (\<lambda>x. f x \<noteq> None) xs)"
  by (simp add: List.map_filter_def)

lemma queryMarketCaps_ok:
  "map query cs = map Inr caps \<Longrightarrow> queryMarketCaps query cs weights = Inr (weights @ caps)"
proof (induction cs arbitrary: weights caps)
  case Nil
  then show ?case by simp
next
  case (Cons c cs)
  then obtain m ms where "caps = m # ms" "query c = Inr m" "map query cs = map Inr ms"
    by (cases caps) auto
  with Cons.IH [of ms "weights @ [m]"] show ?case by simp
qed

lemma queryMarketCaps_fails:
  "\<forall>c'\<in>set pre. \<exists>m. query c' = Inr m \<Longrightarrow> query c = Inl err \<Longrightarrow>
   queryMarketCaps query (pre @ c # post) weights = Inl err"
  by (induction pre arbitrary: weights) auto

lemma queryMarketCaps_Inr:
  "queryMarketCaps query cs weights = Inr ws \<Longrightarrow> \<forall>c\<in>set cs. \<exists>m. query c = Inr m"
  by (induction cs arbitrary: weights) (auto split: sum.splits)

lemma all_ok_caps:
  "\<forall>c\<in>set cs. \<exists>m. query c = Inr m \<Longrightarrow> map query cs = map Inr (map (\<lambda>c. projr (query c)) cs)"
  by (induction cs) auto

lemma queryMarketCaps_Inl:
  "queryMarketCaps query cs weights = Inl err \<Longrightarrow> \<exists>c\<in>set cs. query c = Inl err"
  by (induction cs arbitrary: weights) (auto split: sum.splits)

lemma Sum_divided: "Sum (map (\<lambda>x. x / d) v) = Sum v / d"
  by (induction v) (simp_all add: Sum_def add_divide_distrib)

lemma Sum_scaled: "Sum (map (\<lambda>m. m / d * k) caps) = Sum caps / d * k"
  by (induction caps) (simp_all add: Sum_def add_divide_distrib distrib_right)

lemma containsBaseCurrency_iff: "containsBaseCurrency base cs \<longleftrightarrow> base \<in> set cs"
  by (induction cs) auto

lemma logAssetsLoop_returns:
  "i + length assets \<le> length weights \<Longrightarrow> i + length assets \<le> length quantities \<Longrightarrow>
   logAssetsLoop weights quantities i assets = None"
  by (induction assets arbitrary: i) (simp_all add: sliceAt_def)

lemma logAssetsLoop_panic:
  "logAssetsLoop weights quantities i assets = Some p \<Longrightarrow> p = IndexOutOfRange"
  by (induction assets arbitrary: i) (auto simp: sliceAt_def split: if_splits)

lemma logAssets_returns:
  assumes "length marketValues = length (TargetCurrencies s) + 1"
    and "length quantities = length (TargetCurrencies s) + 1"
  shows "logAssets s marketValues prices quantities = None"
proof -
  have "logAssetsLoop (Normalize marketValues) quantities 0 (TargetCurrencies s) = None"
    by (rule logAssetsLoop_returns) (simp_all add: assms length_Normalize)
  then show ?thesis
    using assms by (simp add: logAssets_def Let_def atInt_def length_Normalize)
qed

lemma length_getQuantities: "length (getQuantities s balances) = length (TargetCurrencies s) + 1"
  by (simp add: getQuantities_def)

lemma length_queryPrices:
  "queryPrices ticker base cs acc = (prices, None) \<Longrightarrow> length prices = length acc + length cs + 1"
  by (induction cs arbitrary: acc) (auto split: sum.splits)

lemma length_getPrices:
  "getPrices ticker s = (prices, None) \<Longrightarrow> length prices = length (TargetCurrencies s) + 1"
  by (auto simp: getPrices_def dest: length_queryPrices)

lemma length_Mul: "length a = length b \<Longrightarrow> length (Mul a b) = length a"
  by (simp add: Mul_def)

text \<open>
  In a cycle the market values are the product of the prices and the quantities, and
  both have one entry for each target currency and one for the base currency.
\<close>

lemma logAssets_in_cycle:
  assumes "getPrices ticker s = (prices, None)"
  shows "logAssets s (Mul prices (getQuantities s balances)) prices (getQuantities s balances) =
     None"
proof -
  have p: "length prices = length (TargetCurrencies s) + 1"
    using assms by (rule length_getPrices)
  have q: "length (getQuantities s balances) = length (TargetCurrencies s) + 1"
    by (rule length_getQuantities)
  from p q have "length (Mul prices (getQuantities s balances)) = length (TargetCurrencies s) + 1"
    by (simp add: length_Mul)
  then show ?thesis
    using q by (rule logAssets_returns)
qed

subsection \<open>Fixed-point values\<close>

lemma Trunc_nonneg:
  assumes "0 \<le> x"
  shows "0 \<le> Trunc x" and "real_of_int (Trunc x) \<le> x" and "x < real_of_int (Trunc x) + 1"
  using assms by (simp_all add: Trunc_def)

lemma Trunc_nonpos:
  assumes "x \<le> 0"
  shows "Trunc x \<le> 0" and "x \<le> real_of_int (Trunc x)" and "real_of_int (Trunc x) - 1 < x"
proof -
  show "Trunc x \<le> 0" using assms by (auto simp: Trunc_def)
  show "x \<le> real_of_int (Trunc x)" using assms by (auto simp: Trunc_def)
  show "real_of_int (Trunc x) - 1 < x" using assms by (auto simp: Trunc_def) linarith+
qed

lemma Trunc_of_int: "Trunc (real_of_int n) = n"
  by (simp add: Trunc_def)

lemma NewFromFloat_Fixed:
  "NewFromFloat (Finite a) = Fixed q \<longleftrightarrow>
     representable (Trunc (a * 10 ^ 8)) \<and> q = real_of_int (Trunc (a * 10 ^ 8)) / 10 ^ 8"
  by (auto simp: NewFromFloat_def)

lemma NewFromFloat_NonFinite: "NewFromFloat NonFinite = Unspecified"
  by (simp add: NewFromFloat_def)

lemma NewFromFloat_nonneg:
  assumes "NewFromFloat (Finite a) = Fixed q" and "0 \<le> a"
  shows "0 \<le> q" and "q \<le> a" and "a < q + 1 / 10 ^ 8"
proof -
  from assms(1) have q: "q = real_of_int (Trunc (a * 10 ^ 8)) / 10 ^ 8"
    by (simp add: NewFromFloat_Fixed)
  from assms(2) have s: "0 \<le> a * 10 ^ 8" by simp
  from Trunc_nonneg [OF s] show "0 \<le> q" "q \<le> a" "a < q + 1 / 10 ^ 8"
    by (simp_all add: q field_simps)
qed

lemma NewFromFloat_nonpos:
  assumes "NewFromFloat (Finite a) = Fixed q" and "a \<le> 0"
  shows "q \<le> 0" and "a \<le> q" and "q - 1 / 10 ^ 8 < a"
proof -
  from assms(1) have q: "q = real_of_int (Trunc (a * 10 ^ 8)) / 10 ^ 8"
    by (simp add: NewFromFloat_Fixed)
  from assms(2) have s: "a * 10 ^ 8 \<le> 0" by (simp add: mult_le_0_iff)
  from Trunc_nonpos [OF s] show "q \<le> 0" "a \<le> q" "q - 1 / 10 ^ 8 < a"
    by (simp_all add: q field_simps)
qed

lemma NewFromFloat_near:
  assumes "NewFromFloat (Finite a) = Fixed q"
  shows "a < q + 1 / 10 ^ 8" and "q - 1 / 10 ^ 8 < a"
proof -
  show "a < q + 1 / 10 ^ 8"
  proof (cases "0 \<le> a")
    case True
    with assms show ?thesis by (rule NewFromFloat_nonneg)
  next
    case False
    then have "a \<le> 0" by simp
    with assms have "a \<le> q" by (rule NewFromFloat_nonpos)
    then show ?thesis by simp
  qed
  show "q - 1 / 10 ^ 8 < a"
  proof (cases "0 \<le> a")
    case True
    with assms have "q \<le> a" by (rule NewFromFloat_nonneg)
    then show ?thesis by simp
  next
    case False
    then have "a \<le> 0" by simp
    with assms show ?thesis by (rule NewFromFloat_nonpos)
  qed
qed

lemma NewFromFloat_small:
  assumes "\<bar>d\<bar> < 1 / 10 ^ 8"
  shows "NewFromFloat (Finite d) = Fixed 0"
proof -
  from assms have "-1 < d * 10 ^ 8" "d * 10 ^ 8 < 1" by (simp_all add: field_simps abs_less_iff)
  then have "Trunc (d * 10 ^ 8) = 0"
    unfolding Trunc_def by (auto simp: ceiling_eq_iff floor_eq_iff)
  then show ?thesis by (simp add: NewFromFloat_def representable_def)
qed

lemma AbsValue_of_converted:
  assumes "NewFromFloat (Finite a) = Fixed q0" and "AbsValue (Fixed q0) = Fixed q1"
  shows "q1 = \<bar>q0\<bar>"
proof -
  from assms(1) have q0: "q0 = real_of_int (Trunc (a * 10 ^ 8)) / 10 ^ 8"
    by (simp add: NewFromFloat_Fixed)
  have "\<bar>q0\<bar> * 10 ^ 8 = real_of_int \<bar>Trunc (a * 10 ^ 8)\<bar>"
    by (simp add: q0 abs_divide)
  then have "Trunc (\<bar>q0\<bar> * 10 ^ 8) = \<bar>Trunc (a * 10 ^ 8)\<bar>"
    by (simp only: Trunc_of_int)
  with assms(2) show ?thesis
    by (simp add: NewFromFloat_Fixed q0 abs_divide)
qed


lemma Adjust_Unspecified_quantity [simp]:
  "AdjustQuantityByMaxAmount Unspecified currentPrice maxAmount = Unspecified"
  by (cases maxAmount; cases currentPrice) simp_all

lemma Adjust_Unspecified_price [simp]:
  "AdjustQuantityByMaxAmount quantity Unspecified maxAmount = Unspecified"
  by (cases maxAmount) simp_all

lemma Adjust_bounds:
  assumes adj: "AdjustQuantityByMaxAmount (Fixed q1) (Fixed p) (Fixed M) = Fixed q"
    and q1: "0 \<le> q1" and M: "0 < M"
  shows "0 \<le> q" and "q \<le> q1" and "q * p < M + 1 / 10 ^ 8"
    and "q1 * p < M \<Longrightarrow> q = q1"
    and "M + 1 / 10 ^ 8 \<le> q1 * p \<Longrightarrow> M - (q1 + 1) * p / 10 ^ 8 < q * p"
proof -
  define u :: real where "u = 1 / 10 ^ 8"
  have u: "0 < u" by (simp add: u_def)
  from adj obtain a where amount: "NewFromFloat (Finite (p * q1)) = Fixed a"
    by (cases "NewFromFloat (Finite (p * q1))") simp_all
  have near: "p * q1 < a + u" "a - u < p * q1"
    using NewFromFloat_near [OF amount] by (simp_all add: u_def)
  have goals: "0 \<le> q \<and> q \<le> q1 \<and> q * p < M + u \<and> (q1 * p < M \<longrightarrow> q = q1) \<and>
      (M + u \<le> q1 * p \<longrightarrow> M - (q1 + 1) * p * u < q * p)"
  proof (cases "M < a")
    case False
    with adj amount have eq: "q = q1" by simp
    from near(1) False have "q1 * p < M + u" by (simp add: mult.commute)
    moreover from near(1) False have "\<not> M + u \<le> q1 * p" by (simp add: mult.commute)
    ultimately show ?thesis using q1 eq by simp
  next
    case True
    with M have a: "0 < a" by simp
    have pq: "a \<le> p * q1"
    proof (rule ccontr)
      assume n: "\<not> a \<le> p * q1"
      show False
      proof (cases "0 \<le> p * q1")
        case True
        with amount have "a \<le> p * q1" by (rule NewFromFloat_nonneg)
        with n show False by simp
      next
        case False
        then have "p * q1 \<le> 0" by simp
        with amount have "a \<le> 0" by (rule NewFromFloat_nonpos)
        with a show False by simp
      qed
    qed
    with a have pos: "0 < p * q1" by simp
    with q1 have q1pos: "0 < q1" and ppos: "0 < p"
      by (auto simp: zero_less_mult_iff)
    from True adj amount a obtain r where
      ratio: "NewFromFloat (Finite (M / a)) = Fixed r"
      and reduced: "NewFromFloat (Finite (q1 * r)) = Fixed q"
      by (cases "NewFromFloat (Finite (M / a))") simp_all
    define m where "m = M / a"
    have Ma: "0 < m" "m < 1" using M a True by (simp_all add: m_def)
    then have Ma0: "0 \<le> m" by simp
    have am: "a * m = M" using a by (simp add: m_def)
    from ratio have ratio': "NewFromFloat (Finite m) = Fixed r" by (simp add: m_def)
    have r: "0 \<le> r" "r \<le> m" "m < r + u"
      using NewFromFloat_nonneg [OF ratio' Ma0] by (simp_all add: u_def)
    from q1 r(1) have q1r: "0 \<le> q1 * r" by simp
    have q: "0 \<le> q" "q \<le> q1 * r" "q1 * r < q + u"
      using NewFromFloat_nonneg [OF reduced q1r] by (simp_all add: u_def)
    from r(2) Ma(2) have "r \<le> 1" by simp
    with q1 have "q1 * r \<le> q1" by (simp add: mult_left_le)
    with q(2) have le: "q \<le> q1" by simp
    from ppos have p0: "0 \<le> p" by simp
    have "q1 * r \<le> q1 * m"
      using r(2) q1 by (rule mult_left_mono)
    with q(2) have "q \<le> q1 * m" by simp
    then have "q * p \<le> q1 * m * p"
      using p0 by (rule mult_right_mono)
    also have "\<dots> = p * q1 * m" by simp
    also have "\<dots> < (a + u) * m"
      using near(1) Ma(1) by (rule mult_strict_right_mono)
    also have "\<dots> = M + u * m"
      by (simp add: distrib_right am)
    also have "\<dots> < M + u"
      using Ma(2) u by simp
    finally have upper: "q * p < M + u" .
    have "M = a * m" by (simp add: am)
    also have "\<dots> \<le> p * q1 * m"
      using pq Ma0 by (rule mult_right_mono)
    also have "\<dots> = q1 * m * p" by simp
    also have "\<dots> < q1 * (r + u) * p"
    proof (rule mult_strict_right_mono)
      show "q1 * m < q1 * (r + u)"
        using r(3) q1pos by (rule mult_strict_left_mono)
      show "0 < p" by (rule ppos)
    qed
    also have "\<dots> = q1 * r * p + q1 * p * u" by (simp add: algebra_simps)
    also have "\<dots> < (q + u) * p + q1 * p * u"
    proof -
      have "q1 * r * p < (q + u) * p"
        using q(3) ppos by (rule mult_strict_right_mono)
      then show ?thesis by simp
    qed
    also have "\<dots> = q * p + (q1 + 1) * p * u" by (simp add: algebra_simps)
    finally have lower: "M - (q1 + 1) * p * u < q * p" by simp
    from pq True have "\<not> q1 * p < M" by (simp add: mult.commute)
    with q(1) le upper lower show ?thesis by simp
  qed
  then show "0 \<le> q" and "q \<le> q1" and "q * p < M + 1 / 10 ^ 8"
    and "q1 * p < M \<Longrightarrow> q = q1"
    and "M + 1 / 10 ^ 8 \<le> q1 * p \<Longrightarrow> M - (q1 + 1) * p / 10 ^ 8 < q * p"
    by (simp_all add: u_def)
qed

lemma submitOrderFor_Fixed:
  assumes run: "submitOrderFor s c cw p tw totalValue = Some order"
    and fixed: "Quantity order = Fixed q"
  shows "\<exists>q0. NewFromFloat (fdiv (fmul (fsub tw cw) totalValue) p) = Fixed q0 \<and>
    Side order = Some (if q0 < 0 then SideTypeSell else SideTypeBuy) \<and>
    (\<not> 0 < MaxAmount s \<longrightarrow> q = \<bar>q0\<bar>) \<and>
    (0 < MaxAmount s \<longrightarrow>
      (\<exists>p'. Price order = Fixed p' \<and>
        AdjustQuantityByMaxAmount (Fixed \<bar>q0\<bar>) (Fixed p') (Fixed (MaxAmount s)) = Fixed q))"
proof -
  let ?quantity0 = "NewFromFloat (fdiv (fmul (fsub tw cw) totalValue) p)"
  from run have band: "\<not> flt (fabs (fsub tw cw)) (Threshold s)"
    by (auto simp: submitOrderFor_def Let_def split: if_splits)
  show ?thesis
  proof (cases ?quantity0)
    case Unspecified
    with run band fixed show ?thesis
      by (auto simp: submitOrderFor_def Let_def split: if_splits)
  next
    case (Fixed q0)
    obtain d where d: "fdiv (fmul (fsub tw cw) totalValue) p = Finite d"
      using Fixed by (cases "fdiv (fmul (fsub tw cw) totalValue) p") (simp_all add: NewFromFloat_NonFinite)
    with Fixed have conv: "NewFromFloat (Finite d) = Fixed q0" by simp
    define quantity1 where "quantity1 = (if q0 < 0 then AbsValue (Fixed q0) else Fixed q0)"
    have order: "order = \<lparr>Symbol = c @ BaseCurrency s,
        Side = Some (if q0 < 0 then SideTypeSell else SideTypeBuy), Type = OrderTypeLimit,
        Quantity = (if 0 < MaxAmount s
                    then AdjustQuantityByMaxAmount quantity1 (NewFromFloat (Finite p))
                           (Fixed (MaxAmount s))
                    else quantity1),
        Price = NewFromFloat (Finite p)\<rparr>"
      using run band Fixed
      by (auto simp: submitOrderFor_def Let_def quantity1_def
          simp del: AdjustQuantityByMaxAmount.simps AbsValue.simps)
    have q1: "quantity1 = Fixed \<bar>q0\<bar>"
    proof (cases quantity1)
      case Unspecified
      with order fixed show ?thesis by (simp split: if_splits)
    next
      case (Fixed q1)
      show ?thesis
      proof (cases "q0 < 0")
        case True
        with Fixed have "AbsValue (Fixed q0) = Fixed q1" by (simp add: quantity1_def)
        with conv have "q1 = \<bar>q0\<bar>" by (rule AbsValue_of_converted)
        with Fixed show ?thesis by simp
      next
        case False
        then show ?thesis by (simp add: quantity1_def)
      qed
    qed
    have side: "Side order = Some (if q0 < 0 then SideTypeSell else SideTypeBuy)"
      by (simp add: order)
    have uncapped: "q = \<bar>q0\<bar>" if "\<not> 0 < MaxAmount s"
      using that order fixed q1 by simp
    have capped: "\<exists>p'. Price order = Fixed p' \<and>
        AdjustQuantityByMaxAmount (Fixed \<bar>q0\<bar>) (Fixed p') (Fixed (MaxAmount s)) = Fixed q"
      if "0 < MaxAmount s"
    proof (cases "NewFromFloat (Finite p)")
      case Unspecified
      with that order fixed show ?thesis by simp
    next
      case (Fixed p')
      with that order fixed q1 show ?thesis by simp
    qed
    from Fixed side uncapped capped show ?thesis by blast
  qed
qed


lemma submitOrderFor_zero:
  assumes run: "submitOrderFor s c cw p tw totalValue = Some order"
    and d: "fdiv (fmul (fsub tw cw) totalValue) p = Finite d"
    and small: "\<bar>d\<bar> < 1 / 10 ^ 8"
    and price: "NewFromFloat (Finite p) \<noteq> Unspecified"
  shows "Quantity order = Fixed 0 \<and> Side order = Some SideTypeBuy"
proof -
  from run have band: "\<not> flt (fabs (fsub tw cw)) (Threshold s)"
    by (auto simp: submitOrderFor_def Let_def split: if_splits)
  from small have q0: "NewFromFloat (Finite d) = Fixed 0"
    by (rule NewFromFloat_small)
  from price obtain p' where p': "NewFromFloat (Finite p) = Fixed p'"
    by (cases "NewFromFloat (Finite p)") simp_all
  have zero: "NewFromFloat (Finite 0) = Fixed 0"
    by (rule NewFromFloat_small) simp
  from run band show ?thesis
    by (auto simp: submitOrderFor_def Let_def d q0 p' zero)
qed

lemma generateSubmitOrders_map:
  assumes "length (TargetCurrencies s) \<le> length prices"
    and "length (TargetCurrencies s) \<le> length marketValues"
    and "length (TargetCurrencies s) \<le> length targetWeights"
  shows "generateSubmitOrders s prices marketValues targetWeights =
     Inr (map
            (\<lambda>j. the (submitOrderFor s (TargetCurrencies s ! j) (Normalize marketValues ! j)
                         (prices ! j) (targetWeights ! j) (Sum marketValues)))
            (filter
               (\<lambda>j. \<not> flt (fabs (fsub (targetWeights ! j) (Normalize marketValues ! j)))
                        (Threshold s))
               [0..<length (TargetCurrencies s)]))"
  by (simp add: generateSubmitOrders_returns [OF assms] List.map_filter_def
      submitOrderFor_None_iff comp_def)

lemma submitOrderFor_Some:
  "\<not> flt (fabs (fsub tw cw)) (Threshold s) \<Longrightarrow>
   \<exists>order. submitOrderFor s c cw p tw totalValue = Some order"
  using submitOrderFor_None_iff [of s c cw p tw totalValue] by auto

text \<open>
  A slice shorter than the list of target currencies makes the loop of
  \<open>generateSubmitOrders\<close> panic, and nothing is returned.
\<close>

lemma generateSubmitOrders_short_slice:
  "generateSubmitOrders scenario [10] scenarioMarketValues scenarioTargetWeights =
     Inl IndexOutOfRange"
  by (simp add: run_defs example_defs)

section \<open>The decision engine\<close>

text \<open>
  C1 (amended): for a threshold strictly above zero, if at every index of a target
  currency the current weight, the normalized market value, is a finite number equal to
  the target weight, then \<open>generateSubmitOrders\<close> returns the empty sequence of orders.
  The three slices are at least as long as the list of target currencies. In Go a
  \<open>NaN\<close> weight is equal to nothing, so equal weights are finite.
\<close>

theorem no_drift_no_orders:
  assumes "0 < Threshold s"
    and "length (TargetCurrencies s) \<le> length prices"
    and "length (TargetCurrencies s) \<le> length marketValues"
    and "length (TargetCurrencies s) \<le> length targetWeights"
    and "\<forall>i<length (TargetCurrencies s).
           \<exists>w. targetWeights ! i = Finite w \<and> Normalize marketValues ! i = Finite w"
  shows "generateSubmitOrders s prices marketValues targetWeights = Inr []"
proof -
  have "submitOrderFor s (TargetCurrencies s ! j) (Normalize marketValues ! j) (prices ! j)
          (targetWeights ! j) (Sum marketValues) = None"
    if "j \<in> set [0..<length (TargetCurrencies s)]" for j
  proof -
    from that assms(5) obtain w where "targetWeights ! j = Finite w"
      "Normalize marketValues ! j = Finite w" by auto
    with assms(1) show ?thesis by (simp add: submitOrderFor_None_iff)
  qed
  then show ?thesis
    by (simp only: generateSubmitOrders_returns [OF assms(2-4)] map_filter_eq_Nil)
qed

text \<open>The theorem of C1 at the scenario, with market values in the target proportions.\<close>

theorem no_drift_no_orders_witness:
  "0 < Threshold scenario \<and>
   Normalize balancedMarketValues = scenarioTargetWeights \<and>
   generateSubmitOrders scenario scenarioPrices balancedMarketValues scenarioTargetWeights = Inr []"
proof -
  have thr: "0 < Threshold scenario"
    by (simp add: example_defs)
  have eq: "Normalize balancedMarketValues = scenarioTargetWeights"
    by (simp add: example_defs run_defs)
  have len: "length (TargetCurrencies scenario) \<le> length scenarioPrices"
    "length (TargetCurrencies scenario) \<le> length balancedMarketValues"
    "length (TargetCurrencies scenario) \<le> length scenarioTargetWeights"
    by (simp_all add: example_defs)
  have finite: "\<forall>i<length (TargetCurrencies scenario). scenarioTargetWeights ! i \<noteq> NonFinite"
    by (simp add: example_defs less_Suc_eq)
  have same: "\<forall>i<length (TargetCurrencies scenario).
      \<exists>w. scenarioTargetWeights ! i = Finite w \<and> Normalize balancedMarketValues ! i = Finite w"
    unfolding eq using finite by (metis float64.exhaust)
  from no_drift_no_orders [OF thr len same] thr eq show ?thesis
    by (intro conjI)
qed

text \<open>
  C1 as stated fails for a threshold of zero: the current weights equal the target
  weights, a difference of zero is not below a threshold of zero, and an order of
  quantity zero is generated for each target currency.
\<close>

theorem no_drift_counterexample:
  "0 \<le> Threshold zeroThreshold \<and>
   Normalize balancedMarketValues = scenarioTargetWeights \<and>
   generateSubmitOrders zeroThreshold scenarioPrices balancedMarketValues scenarioTargetWeights =
     Inr [\<lparr>Symbol = ''AUSD'', Side = Some SideTypeBuy, Type = OrderTypeLimit,
             Quantity = Fixed 0, Price = Fixed 10\<rparr>,
          \<lparr>Symbol = ''BUSD'', Side = Some SideTypeBuy, Type = OrderTypeLimit,
             Quantity = Fixed 0, Price = Fixed 20\<rparr>] \<and>
   generateSubmitOrders zeroThreshold scenarioPrices balancedMarketValues scenarioTargetWeights \<noteq>
     Inr []"
  by (simp add: example_defs run_defs)

text \<open>
  C2 (amended): \<open>generateSubmitOrders\<close> never skips an asset for its quantity. For
  slices that cover every target currency it returns, in list order, exactly one order
  for each index whose weight difference is not inside the dead band. The quantity of
  an order, where the fixed-point arithmetic defines it, is at least zero, and it can
  be zero: whenever the computed quantity is below one fixed-point unit in absolute
  value (and the price converts to a fixed-point value) the order is a buy order of
  quantity zero. This happens for a threshold of zero and for a threshold above zero
  alike.
\<close>

theorem zero_quantity_not_skipped:
  assumes "length (TargetCurrencies s) \<le> length prices"
    and "length (TargetCurrencies s) \<le> length marketValues"
    and "length (TargetCurrencies s) \<le> length targetWeights"
  shows "\<exists>orders outside.
     outside =
       filter
         (\<lambda>j. \<not> flt (fabs (fsub (targetWeights ! j) (Normalize marketValues ! j))) (Threshold s))
         [0..<length (TargetCurrencies s)] \<and>
     generateSubmitOrders s prices marketValues targetWeights = Inr orders \<and>
     map Symbol orders = map (\<lambda>j. TargetCurrencies s ! j @ BaseCurrency s) outside \<and>
     (\<forall>order\<in>set orders. \<forall>q. Quantity order = Fixed q \<longrightarrow> 0 \<le> q) \<and>
     (\<forall>k<length outside. \<forall>d.
        fdiv (fmul (fsub (targetWeights ! (outside ! k)) (Normalize marketValues ! (outside ! k)))
                (Sum marketValues)) (prices ! (outside ! k)) = Finite d \<and>
        \<bar>d\<bar> < 1 / 10 ^ 8 \<and>
        NewFromFloat (Finite (prices ! (outside ! k))) \<noteq> Unspecified \<longrightarrow>
        Quantity (orders ! k) = Fixed 0 \<and> Side (orders ! k) = Some SideTypeBuy)"
proof -
  let ?n = "length (TargetCurrencies s)"
  let ?f = "\<lambda>j. submitOrderFor s (TargetCurrencies s ! j) (Normalize marketValues ! j) (prices ! j)
                   (targetWeights ! j) (Sum marketValues)"
  let ?P = "\<lambda>j. \<not> flt (fabs (fsub (targetWeights ! j) (Normalize marketValues ! j))) (Threshold s)"
  let ?outside = "filter ?P [0..<?n]"
  let ?orders = "map (\<lambda>j. the (?f j)) ?outside"
  have run: "generateSubmitOrders s prices marketValues targetWeights = Inr ?orders"
    by (rule generateSubmitOrders_map [OF assms])
  have some: "?f j = Some (the (?f j))" if "j \<in> set ?outside" for j
  proof -
    from that have "?P j" by simp
    then obtain order where "?f j = Some order"
      using submitOrderFor_Some by blast
    then show ?thesis by simp
  qed
  have syms: "map Symbol ?orders = map (\<lambda>j. TargetCurrencies s ! j @ BaseCurrency s) ?outside"
  proof -
    have "Symbol (the (?f j)) = TargetCurrencies s ! j @ BaseCurrency s"
      if "j \<in> set ?outside" for j
      using submitOrderFor_fields [OF some [OF that]] by simp
    then show ?thesis by (simp add: comp_def)
  qed
  have nonneg: "0 \<le> q" if "order \<in> set ?orders" and fixed: "Quantity order = Fixed q" for order q
  proof -
    from that(1) obtain j where j: "j \<in> set ?outside" and order: "order = the (?f j)"
      by auto
    from some [OF j] order have run_j: "?f j = Some order" by simp
    from submitOrderFor_Fixed [OF run_j fixed] obtain q0 where
      uncapped: "\<not> 0 < MaxAmount s \<Longrightarrow> q = \<bar>q0\<bar>"
      and capped: "0 < MaxAmount s \<Longrightarrow>
        \<exists>p'. Price order = Fixed p' \<and>
          AdjustQuantityByMaxAmount (Fixed \<bar>q0\<bar>) (Fixed p') (Fixed (MaxAmount s)) = Fixed q"
      by blast
    show ?thesis
    proof (cases "0 < MaxAmount s")
      case False
      with uncapped show ?thesis by simp
    next
      case True
      with capped obtain p' where
        adj: "AdjustQuantityByMaxAmount (Fixed \<bar>q0\<bar>) (Fixed p') (Fixed (MaxAmount s)) = Fixed q"
        by blast
      have "0 \<le> \<bar>q0\<bar>" by simp
      with adj show ?thesis using True by (rule Adjust_bounds(1))
    qed
  qed
  have zero: "Quantity (?orders ! k) = Fixed 0 \<and> Side (?orders ! k) = Some SideTypeBuy"
    if k: "k < length ?outside"
      and d: "fdiv (fmul (fsub (targetWeights ! (?outside ! k)) (Normalize marketValues ! (?outside ! k)))
                (Sum marketValues)) (prices ! (?outside ! k)) = Finite d"
      and small: "\<bar>d\<bar> < 1 / 10 ^ 8"
      and price: "NewFromFloat (Finite (prices ! (?outside ! k))) \<noteq> Unspecified" for k d
  proof -
    from k have "?outside ! k \<in> set ?outside" by (rule nth_mem)
    then have "?f (?outside ! k) = Some (the (?f (?outside ! k)))" by (rule some)
    moreover from k have "?orders ! k = the (?f (?outside ! k))" by simp
    ultimately have "?f (?outside ! k) = Some (?orders ! k)" by simp
    then show ?thesis using d small price by (rule submitOrderFor_zero)
  qed
  from run syms nonneg zero show ?thesis by blast
qed

text \<open>
  The theorem of C2 at the scenario of the spec with holdings of one fixed-point unit of
  each asset: the threshold is above zero, both assets are outside the dead band, and
  the computed quantity of asset \<open>A\<close> is below one unit.
\<close>

theorem zero_quantity_not_skipped_witness:
  "length (TargetCurrencies scenario) \<le> length scenarioPrices \<and>
   length (TargetCurrencies scenario) \<le> length dustMarketValues \<and>
   length (TargetCurrencies scenario) \<le> length scenarioTargetWeights \<and>
   0 < Threshold scenario \<and>
   (\<exists>orders.
      generateSubmitOrders scenario scenarioPrices dustMarketValues scenarioTargetWeights =
        Inr orders \<and>
      map Symbol orders = [''AUSD'', ''BUSD''] \<and>
      Quantity (orders ! 0) = Fixed 0 \<and> Side (orders ! 0) = Some SideTypeBuy)"
proof -
  have len: "length (TargetCurrencies scenario) \<le> length scenarioPrices"
    "length (TargetCurrencies scenario) \<le> length dustMarketValues"
    "length (TargetCurrencies scenario) \<le> length scenarioTargetWeights"
    by (simp_all add: example_defs)
  have thr: "0 < Threshold scenario"
    by (simp add: example_defs)
  have outside: "filter
         (\<lambda>j. \<not> flt (fabs (fsub (scenarioTargetWeights ! j) (Normalize dustMarketValues ! j)))
                  (Threshold scenario))
         [0..<length (TargetCurrencies scenario)] = [0, 1]"
    by (simp add: example_defs run_defs upt_rec)
  have syms: "map (\<lambda>j. TargetCurrencies scenario ! j @ BaseCurrency scenario) [0, 1] =
      [''AUSD'', ''BUSD'']"
    by (simp add: example_defs)
  have d: "fdiv (fmul (fsub (scenarioTargetWeights ! 0) (Normalize dustMarketValues ! 0))
             (Sum dustMarketValues)) (scenarioPrices ! 0) = Finite (- (16 / 6250000000))"
    by (simp add: example_defs run_defs)
  have small: "\<bar>- (16 / 6250000000) :: real\<bar> < 1 / 10 ^ 8"
    by simp
  have price: "NewFromFloat (Finite (scenarioPrices ! 0)) \<noteq> Unspecified"
    by (simp add: example_defs run_defs)
  from zero_quantity_not_skipped [OF len] obtain orders outside where
    out: "outside = filter
         (\<lambda>j. \<not> flt (fabs (fsub (scenarioTargetWeights ! j) (Normalize dustMarketValues ! j)))
                  (Threshold scenario))
         [0..<length (TargetCurrencies scenario)]"
    and run: "generateSubmitOrders scenario scenarioPrices dustMarketValues scenarioTargetWeights =
        Inr orders"
    and names: "map Symbol orders =
        map (\<lambda>j. TargetCurrencies scenario ! j @ BaseCurrency scenario) outside"
    and zero: "\<forall>k<length outside. \<forall>d.
        fdiv (fmul (fsub (scenarioTargetWeights ! (outside ! k))
                      (Normalize dustMarketValues ! (outside ! k)))
                (Sum dustMarketValues)) (scenarioPrices ! (outside ! k)) = Finite d \<and>
        \<bar>d\<bar> < 1 / 10 ^ 8 \<and>
        NewFromFloat (Finite (scenarioPrices ! (outside ! k))) \<noteq> Unspecified \<longrightarrow>
        Quantity (orders ! k) = Fixed 0 \<and> Side (orders ! k) = Some SideTypeBuy"
    by blast
  from out outside have out': "outside = [0, 1]" by simp
  from names have names': "map Symbol orders = [''AUSD'', ''BUSD'']"
    unfolding out' syms .
  have k: "0 < length outside" and at0: "outside ! 0 = 0"
    by (simp_all add: out')
  from zero [rule_format, OF k, of "- (16 / 6250000000)"] d small price
  have first: "Quantity (orders ! 0) = Fixed 0 \<and> Side (orders ! 0) = Some SideTypeBuy"
    unfolding at0 by blast
  have "\<exists>orders.
      generateSubmitOrders scenario scenarioPrices dustMarketValues scenarioTargetWeights =
        Inr orders \<and>
      map Symbol orders = [''AUSD'', ''BUSD''] \<and>
      Quantity (orders ! 0) = Fixed 0 \<and> Side (orders ! 0) = Some SideTypeBuy"
  proof (intro exI conjI)
    show "generateSubmitOrders scenario scenarioPrices dustMarketValues scenarioTargetWeights =
        Inr orders" by (rule run)
    show "map Symbol orders = [''AUSD'', ''BUSD'']" by (rule names')
    show "Quantity (orders ! 0) = Fixed 0" using first by (rule conjunct1)
    show "Side (orders ! 0) = Some SideTypeBuy" using first by (rule conjunct2)
  qed
  with len thr show ?thesis
    by (intro conjI)
qed

text \<open>
  C2 as stated fails in three ways. With a threshold of zero and weights on target, the
  weight difference of zero passes the dead band and a buy order of quantity zero is
  generated. With a threshold above zero and holdings of one fixed-point unit, both
  assets are outside the dead band, the computed quantities are below one unit and two
  buy orders of quantity zero are generated. With no holdings at all the current
  weights are not finite, both assets pass the dead band, and the quantity of each
  order is the conversion of a non-finite float.
\<close>

theorem zero_quantity_counterexample:
  "Threshold singleAsset = 0 \<and>
   generateSubmitOrders singleAsset [10, 1] [50, 50] [Finite (1 / 2), Finite (1 / 2)] =
     Inr [\<lparr>Symbol = ''BTCUSDT'', Side = Some SideTypeBuy, Type = OrderTypeLimit,
             Quantity = Fixed 0, Price = Fixed 10\<rparr>] \<and>
   0 < Threshold scenario \<and>
   Mul scenarioPrices dustQuantities = dustMarketValues \<and>
   generateSubmitOrders scenario scenarioPrices dustMarketValues scenarioTargetWeights =
     Inr [\<lparr>Symbol = ''AUSD'', Side = Some SideTypeBuy, Type = OrderTypeLimit,
             Quantity = Fixed 0, Price = Fixed 10\<rparr>,
          \<lparr>Symbol = ''BUSD'', Side = Some SideTypeBuy, Type = OrderTypeLimit,
             Quantity = Fixed 0, Price = Fixed 20\<rparr>] \<and>
   generateSubmitOrders scenario scenarioPrices emptyMarketValues scenarioTargetWeights =
     Inr [\<lparr>Symbol = ''AUSD'', Side = None, Type = OrderTypeLimit,
             Quantity = Unspecified, Price = Fixed 10\<rparr>,
          \<lparr>Symbol = ''BUSD'', Side = None, Type = OrderTypeLimit,
             Quantity = Unspecified, Price = Fixed 20\<rparr>]"
  by (simp add: example_defs run_defs Mul_def)

text \<open>
  C3: if at the index \<open>i\<close> of a target currency the absolute difference between the
  target weight and the current weight, the normalized market value, is below the
  threshold, then \<open>generateSubmitOrders\<close> generates no order for index \<open>i\<close>: the orders
  it returns are, in list order, those of the other indices whose difference is not
  inside the dead band, and where the target currencies are distinct no returned order
  carries the symbol of index \<open>i\<close>. The three slices are at least as long as the list
  of target currencies.
\<close>

theorem dead_band_no_order:
  assumes "length (TargetCurrencies s) \<le> length prices"
    and "length (TargetCurrencies s) \<le> length marketValues"
    and "length (TargetCurrencies s) \<le> length targetWeights"
    and "i < length (TargetCurrencies s)"
    and "targetWeights ! i = Finite t"
    and "Normalize marketValues ! i = Finite c"
    and "\<bar>t - c\<bar> < Threshold s"
  shows "\<exists>orders. generateSubmitOrders s prices marketValues targetWeights = Inr orders \<and>
     map Symbol orders =
       map (\<lambda>j. TargetCurrencies s ! j @ BaseCurrency s)
         (filter
            (\<lambda>j. j \<noteq> i \<and>
               \<not> flt (fabs (fsub (targetWeights ! j) (Normalize marketValues ! j))) (Threshold s))
            [0..<length (TargetCurrencies s)]) \<and>
     (distinct (TargetCurrencies s) \<longrightarrow>
        TargetCurrencies s ! i @ BaseCurrency s \<notin> Symbol ` set orders)"
proof -
  let ?n = "length (TargetCurrencies s)"
  let ?f = "\<lambda>j. submitOrderFor s (TargetCurrencies s ! j) (Normalize marketValues ! j) (prices ! j)
                   (targetWeights ! j) (Sum marketValues)"
  let ?orders = "List.map_filter ?f [0..<?n]"
  let ?P = "\<lambda>j. \<not> flt (fabs (fsub (targetWeights ! j) (Normalize marketValues ! j))) (Threshold s)"
  let ?sym = "\<lambda>j. TargetCurrencies s ! j @ BaseCurrency s"
  have run: "generateSubmitOrders s prices marketValues targetWeights = Inr ?orders"
    by (rule generateSubmitOrders_returns [OF assms(1-3)])
  have "map Symbol ?orders = map (\<lambda>j. Symbol (the (?f j))) (filter ?P [0..<?n])"
    by (simp add: List.map_filter_def submitOrderFor_None_iff comp_def)
  also have "\<dots> = map ?sym (filter ?P [0..<?n])"
  proof (rule map_cong [OF refl])
    fix j assume "j \<in> set (filter ?P [0..<?n])"
    then have "?f j \<noteq> None" by (simp add: submitOrderFor_None_iff)
    then obtain order where "?f j = Some order" by auto
    then show "Symbol (the (?f j)) = ?sym j"
      using submitOrderFor_fields [of s _ _ _ _ _ order] by simp
  qed
  also have "filter ?P [0..<?n] = filter (\<lambda>j. j \<noteq> i \<and> ?P j) [0..<?n]"
    by (rule filter_cong [OF refl]) (use assms(5-7) in auto)
  finally have syms: "map Symbol ?orders = map ?sym (filter (\<lambda>j. j \<noteq> i \<and> ?P j) [0..<?n])" .
  have "?sym i \<notin> Symbol ` set ?orders" if d: "distinct (TargetCurrencies s)"
  proof
    assume "?sym i \<in> Symbol ` set ?orders"
    then have "?sym i \<in> set (map Symbol ?orders)" by simp
    then obtain j where j: "j < ?n" "j \<noteq> i" and eq: "?sym j = ?sym i"
      unfolding syms by auto
    from eq have "TargetCurrencies s ! j = TargetCurrencies s ! i" by simp
    with d j(1) assms(4) have "j = i" by (simp add: nth_eq_iff_index_eq)
    with j(2) show False by simp
  qed
  with run syms show ?thesis by blast
qed

text \<open>
  The theorem of C3 at the scenario with market values 24, 50 and 26: asset \<open>A\<close> is at
  its target weight, asset \<open>B\<close> is not.
\<close>

theorem dead_band_no_order_witness:
  "(0::nat) < length (TargetCurrencies scenario) \<and>
   scenarioTargetWeights ! 0 = Finite (6 / 25) \<and>
   Normalize driftedMarketValues ! 0 = Finite (6 / 25) \<and>
   \<bar>6 / 25 - 6 / 25 :: real\<bar> < Threshold scenario \<and>
   distinct (TargetCurrencies scenario) \<and>
   (\<exists>orders.
      generateSubmitOrders scenario scenarioPrices driftedMarketValues scenarioTargetWeights =
        Inr orders \<and>
      map Symbol orders = [''BUSD''] \<and>
      ''AUSD'' \<notin> Symbol ` set orders)"
proof -
  have len: "length (TargetCurrencies scenario) \<le> length scenarioPrices"
    "length (TargetCurrencies scenario) \<le> length driftedMarketValues"
    "length (TargetCurrencies scenario) \<le> length scenarioTargetWeights"
    by (simp_all add: example_defs)
  have i: "(0::nat) < length (TargetCurrencies scenario)"
    by (simp add: example_defs)
  have t: "scenarioTargetWeights ! 0 = Finite (6 / 25)"
    by (simp add: example_defs)
  have c: "Normalize driftedMarketValues ! 0 = Finite (6 / 25)"
    by (simp add: example_defs run_defs)
  have band: "\<bar>6 / 25 - 6 / 25 :: real\<bar> < Threshold scenario"
    by (simp add: example_defs)
  have d: "distinct (TargetCurrencies scenario)"
    by (simp add: example_defs)
  have others: "map (\<lambda>j. TargetCurrencies scenario ! j @ BaseCurrency scenario)
         (filter
            (\<lambda>j. j \<noteq> 0 \<and>
               \<not> flt (fabs (fsub (scenarioTargetWeights ! j) (Normalize driftedMarketValues ! j)))
                   (Threshold scenario))
            [0..<length (TargetCurrencies scenario)]) = [''BUSD'']"
    by (simp add: example_defs run_defs upt_rec)
  have sym: "TargetCurrencies scenario ! 0 @ BaseCurrency scenario = ''AUSD''"
    by (simp add: example_defs)
  from dead_band_no_order [OF len i t c band]
  obtain orders where
    run: "generateSubmitOrders scenario scenarioPrices driftedMarketValues scenarioTargetWeights =
        Inr orders"
    and syms: "map Symbol orders = [''BUSD'']"
    and none: "distinct (TargetCurrencies scenario) \<longrightarrow> ''AUSD'' \<notin> Symbol ` set orders"
    unfolding others sym by (elim exE conjE)
  from none d have "''AUSD'' \<notin> Symbol ` set orders"
    by (rule mp)
  with run syms have "\<exists>orders.
      generateSubmitOrders scenario scenarioPrices driftedMarketValues scenarioTargetWeights =
        Inr orders \<and>
      map Symbol orders = [''BUSD''] \<and>
      ''AUSD'' \<notin> Symbol ` set orders"
    by (intro exI conjI)
  with i t c band d show ?thesis
    by (intro conjI)
qed




section \<open>The weight calculator\<close>

text \<open>
  C5: if the market-cap query succeeds for every target currency, \<open>getTargetWeights\<close>
  returns a vector whose length is the number of target currencies plus one and whose
  last element is the configured base weight.
\<close>

theorem target_weights_shape:
  assumes "\<forall>c\<in>set (TargetCurrencies s). \<exists>marketCap. query c = Inr marketCap"
  shows "\<exists>weights. getTargetWeights query s = Inr weights \<and>
     length weights = length (TargetCurrencies s) + 1 \<and>
     last weights = Finite (BaseWeight s)"
proof -
  let ?caps = "map (\<lambda>c. projr (query c)) (TargetCurrencies s)"
  from assms have "map query (TargetCurrencies s) = map Inr ?caps"
    by (rule all_ok_caps)
  then have "queryMarketCaps query (TargetCurrencies s) [] = Inr ([] @ ?caps)"
    by (rule queryMarketCaps_ok)
  then show ?thesis
    by (simp add: getTargetWeights_def MulScalar_def length_Normalize)
qed

text \<open>The theorem of C5 at the scenario of the spec.\<close>

theorem target_weights_shape_witness:
  "TargetCurrencies scenario = [''A'', ''B''] \<and>
   scenarioMarketCap ''A'' = Inr 300 \<and>
   scenarioMarketCap ''B'' = Inr 700 \<and>
   (\<exists>weights. getTargetWeights scenarioMarketCap scenario = Inr weights \<and>
      length weights = 3 \<and> last weights = Finite (1 / 5))"
proof -
  have targets: "TargetCurrencies scenario = [''A'', ''B'']"
    by (simp add: example_defs)
  have capA: "scenarioMarketCap ''A'' = Inr 300" and capB: "scenarioMarketCap ''B'' = Inr 700"
    by (simp_all add: example_defs)
  have ok: "\<forall>c\<in>set (TargetCurrencies scenario). \<exists>marketCap. scenarioMarketCap c = Inr marketCap"
    using capA capB by (simp add: targets)
  have n: "length (TargetCurrencies scenario) + 1 = 3"
    by (simp add: scenario_def)
  have base: "BaseWeight scenario = 1 / 5"
    by (simp add: scenario_def)
  from target_weights_shape [OF ok]
  have "\<exists>weights. getTargetWeights scenarioMarketCap scenario = Inr weights \<and>
      length weights = 3 \<and> last weights = Finite (1 / 5)"
    unfolding n base .
  with targets capA capB show ?thesis
    by (intro conjI)
qed

text \<open>
  C6: if the queries for the target currencies succeed with market caps whose sum is
  not zero, \<open>getTargetWeights\<close> returns the market caps divided by their sum and scaled
  by one minus the base weight, followed by the base weight, and in exact arithmetic
  these numbers sum to one.
\<close>

theorem target_weights_sum_to_one:
  assumes "map query (TargetCurrencies s) = map Inr marketCaps"
    and "Sum marketCaps \<noteq> 0"
  shows "getTargetWeights query s =
       Inr (map Finite
         (map (\<lambda>m. m / Sum marketCaps * (1 - BaseWeight s)) marketCaps @ [BaseWeight s])) \<and>
     Sum (map (\<lambda>m. m / Sum marketCaps * (1 - BaseWeight s)) marketCaps @ [BaseWeight s]) = 1"
proof -
  from assms(1) have "queryMarketCaps query (TargetCurrencies s) [] = Inr ([] @ marketCaps)"
    by (rule queryMarketCaps_ok)
  then have run: "getTargetWeights query s =
       Inr (map Finite
         (map (\<lambda>m. m / Sum marketCaps * (1 - BaseWeight s)) marketCaps @ [BaseWeight s]))"
    using assms(2)
    by (simp add: getTargetWeights_def MulScalar_def Normalize_def DivScalar_def comp_def)
  have "Sum (map (\<lambda>m. m / Sum marketCaps * (1 - BaseWeight s)) marketCaps @ [BaseWeight s]) =
     Sum (map (\<lambda>m. m / Sum marketCaps * (1 - BaseWeight s)) marketCaps) + BaseWeight s"
    by (simp add: Sum_def)
  also have "\<dots> = Sum marketCaps / Sum marketCaps * (1 - BaseWeight s) + BaseWeight s"
    by (simp only: Sum_scaled)
  also have "\<dots> = 1" using assms(2) by simp
  finally show ?thesis using run by simp
qed

text \<open>
  The theorem of C6 at the scenario of the spec: market caps 300 and 700 and a base
  weight of one fifth give the weights 0.24, 0.56 and 0.2.
\<close>

theorem target_weights_sum_to_one_witness:
  "map scenarioMarketCap (TargetCurrencies scenario) = map Inr [300, 700] \<and>
   Sum [300, 700] \<noteq> 0 \<and>
   getTargetWeights scenarioMarketCap scenario = Inr scenarioTargetWeights \<and>
   Sum [6 / 25, 14 / 25, 1 / 5] = 1"
proof -
  have caps: "map scenarioMarketCap (TargetCurrencies scenario) = map Inr [300, 700]"
    by (simp add: example_defs)
  have total: "Sum [300, 700] \<noteq> 0"
    by (simp add: Sum_def)
  have weights: "map (\<lambda>m. m / Sum [300, 700] * (1 - BaseWeight scenario)) [300, 700] @
      [BaseWeight scenario] = [6 / 25, 14 / 25, 1 / 5]"
    by (simp add: scenario_def Sum_def)
  from target_weights_sum_to_one [OF caps total]
  have "getTargetWeights scenarioMarketCap scenario = Inr scenarioTargetWeights \<and>
      Sum [6 / 25, 14 / 25, 1 / 5] = 1"
    unfolding weights by (simp add: scenarioTargetWeights_def)
  with caps total show ?thesis
    by (intro conjI) simp_all
qed

text \<open>
  C7: \<open>Normalize\<close> returns a vector of the same length; where the sum of the vector is
  not zero its elements are the elements of the vector divided by the sum, and they sum
  to one; where the sum is zero it signals no error and returns a vector of non-finite
  values.
\<close>

theorem Normalize_reference:
  "length (Normalize v) = length v \<and>
   Normalize v =
     (if Sum v = 0 then replicate (length v) NonFinite else map (\<lambda>x. Finite (x / Sum v)) v) \<and>
   (Sum v \<noteq> 0 \<longrightarrow> Sum (map (\<lambda>x. x / Sum v) v) = 1)"
proof -
  have "Sum (map (\<lambda>x. x / Sum v) v) = Sum v / Sum v"
    by (rule Sum_divided)
  moreover have "map (\<lambda>x. NonFinite) v = replicate (length v) NonFinite"
    by (simp add: map_replicate_const)
  ultimately show ?thesis
    by (simp add: Normalize_def DivScalar_def)
qed

text \<open>
  The theorem of C7 at the market values of the scenario, whose sum is 120, and at a
  vector of two zeros.
\<close>

theorem Normalize_reference_witness:
  "Sum scenarioMarketValues \<noteq> 0 \<and>
   Normalize scenarioMarketValues = [Finite (5 / 12), Finite (1 / 6), Finite (5 / 12)] \<and>
   Sum (map (\<lambda>x. x / Sum scenarioMarketValues) scenarioMarketValues) = 1 \<and>
   Normalize [0, 0] = [NonFinite, NonFinite]"
proof -
  have total: "Sum scenarioMarketValues \<noteq> 0"
    by (simp add: example_defs Sum_def)
  have zero: "Sum [0, 0] = 0"
    by (simp add: Sum_def)
  from Normalize_reference [of scenarioMarketValues] total
  have "Normalize scenarioMarketValues = [Finite (5 / 12), Finite (1 / 6), Finite (5 / 12)]"
    and "Sum (map (\<lambda>x. x / Sum scenarioMarketValues) scenarioMarketValues) = 1"
    by (simp_all add: example_defs Sum_def)
  moreover from Normalize_reference [of "[0, 0]"] zero
  have "Normalize [0, 0] = [NonFinite, NonFinite]"
    by simp
  ultimately show ?thesis
    using total by (intro conjI)
qed

text \<open>
  C8: \<open>getTargetWeights\<close> returns a weight vector if and only if the market-cap query
  succeeds for every target currency; if the query fails for a currency and succeeds for
  all currencies before it in the list, \<open>getTargetWeights\<close> returns the error of that
  query and no weight vector.
\<close>

theorem fail_fast_weights:
  "((\<exists>weights. getTargetWeights query s = Inr weights) \<longleftrightarrow>
      (\<forall>c\<in>set (TargetCurrencies s). \<exists>marketCap. query c = Inr marketCap)) \<and>
   (\<forall>pre c post err.
      TargetCurrencies s = pre @ c # post \<and>
      (\<forall>c'\<in>set pre. \<exists>marketCap. query c' = Inr marketCap) \<and>
      query c = Inl err \<longrightarrow>
      getTargetWeights query s = Inl err) \<and>
   (\<forall>err. getTargetWeights query s = Inl err \<longrightarrow>
      (\<exists>c\<in>set (TargetCurrencies s). query c = Inl err))"
proof (intro conjI iffI allI impI)
  assume "\<exists>weights. getTargetWeights query s = Inr weights"
  then obtain ws where "queryMarketCaps query (TargetCurrencies s) [] = Inr ws"
    by (auto simp: getTargetWeights_def split: sum.splits)
  then show "\<forall>c\<in>set (TargetCurrencies s). \<exists>marketCap. query c = Inr marketCap"
    by (rule queryMarketCaps_Inr)
next
  assume "\<forall>c\<in>set (TargetCurrencies s). \<exists>marketCap. query c = Inr marketCap"
  then have "map query (TargetCurrencies s) =
      map Inr (map (\<lambda>c. projr (query c)) (TargetCurrencies s))"
    by (rule all_ok_caps)
  then have "queryMarketCaps query (TargetCurrencies s) [] =
      Inr ([] @ map (\<lambda>c. projr (query c)) (TargetCurrencies s))"
    by (rule queryMarketCaps_ok)
  then show "\<exists>weights. getTargetWeights query s = Inr weights"
    by (simp add: getTargetWeights_def)
next
  fix pre c post err
  assume "TargetCurrencies s = pre @ c # post \<and>
      (\<forall>c'\<in>set pre. \<exists>marketCap. query c' = Inr marketCap) \<and> query c = Inl err"
  then show "getTargetWeights query s = Inl err"
    by (simp add: getTargetWeights_def queryMarketCaps_fails)
next
  fix err
  assume "getTargetWeights query s = Inl err"
  then have "queryMarketCaps query (TargetCurrencies s) [] = Inl err"
    by (auto simp: getTargetWeights_def split: sum.splits)
  then show "\<exists>c\<in>set (TargetCurrencies s). query c = Inl err"
    by (rule queryMarketCaps_Inl)
qed

text \<open>
  The theorem of C8 at a list of target currencies whose second entry has no market cap,
  and at the scenario of the spec, where every query succeeds.
\<close>

theorem fail_fast_weights_witness:
  "TargetCurrencies unlisted = [''A''] @ ''XYZ'' # [''B''] \<and>
   scenarioMarketCap ''A'' = Inr 300 \<and>
   scenarioMarketCap ''XYZ'' = Inl ''no market cap'' \<and>
   getTargetWeights scenarioMarketCap unlisted = Inl ''no market cap'' \<and>
   TargetCurrencies scenario = [''A'', ''B''] \<and>
   scenarioMarketCap ''B'' = Inr 700 \<and>
   (\<exists>weights. getTargetWeights scenarioMarketCap scenario = Inr weights)"
proof -
  have split: "TargetCurrencies unlisted = [''A''] @ ''XYZ'' # [''B'']"
    by (simp add: example_defs)
  have capA: "scenarioMarketCap ''A'' = Inr 300" and capB: "scenarioMarketCap ''B'' = Inr 700"
    by (simp_all add: example_defs)
  have before: "\<forall>c'\<in>set [''A'']. \<exists>marketCap. scenarioMarketCap c' = Inr marketCap"
    using capA by simp
  have fails: "scenarioMarketCap ''XYZ'' = Inl ''no market cap''"
    by (simp add: example_defs)
  have targets: "TargetCurrencies scenario = [''A'', ''B'']"
    by (simp add: example_defs)
  have ok: "\<forall>c\<in>set (TargetCurrencies scenario). \<exists>marketCap. scenarioMarketCap c = Inr marketCap"
    using capA capB by (simp add: targets)
  from fail_fast_weights [of scenarioMarketCap unlisted] split before fails
  have "getTargetWeights scenarioMarketCap unlisted = Inl ''no market cap''"
    by blast
  moreover from fail_fast_weights [of scenarioMarketCap scenario] ok
  have "\<exists>weights. getTargetWeights scenarioMarketCap scenario = Inr weights"
    by blast
  ultimately show ?thesis
    using split capA fails targets capB by (intro conjI)
qed

section \<open>Validation\<close>

text \<open>
  C9: \<open>Validate\<close> returns an error if and only if the list of target currencies is
  empty, or the base currency is among the target currencies, or the threshold is below
  zero, or the maximum amount is below zero.
\<close>

theorem Validate_complete:
  "Validate s \<noteq> None \<longleftrightarrow>
     TargetCurrencies s = [] \<or> BaseCurrency s \<in> set (TargetCurrencies s) \<or>
     Threshold s < 0 \<or> MaxAmount s < 0"
  by (simp add: Validate_def containsBaseCurrency_iff)

text \<open>
  The theorem of C9 at the scenario of the spec, which is valid, and at a configuration
  whose only target currency is its base currency.
\<close>

theorem Validate_complete_witness:
  "Validate scenario = None \<and>
   Validate (singleAsset\<lparr>BaseCurrency := ''BTC''\<rparr>) \<noteq> None"
  using Validate_complete [of scenario]
    Validate_complete [of "singleAsset\<lparr>BaseCurrency := ''BTC''\<rparr>"]
  by (simp add: example_defs)

section \<open>Logging the assets\<close>

text \<open>
  C10: if the market values are one more than the target currencies, the length check
  of \<open>logAssets\<close> holds and its explicit panic is not reached; if the quantities are one
  more than the target currencies as well, which is the shape of the vectors that
  \<open>getPrices\<close> and \<open>getQuantities\<close> produce in a cycle, \<open>logAssets\<close> returns without any
  panic.
\<close>

theorem logAssets_no_panic:
  assumes "length marketValues = length (TargetCurrencies s) + 1"
  shows "int (length (Normalize marketValues)) - 1 = int (length (TargetCurrencies s)) \<and>
     (\<forall>message. logAssets s marketValues prices quantities \<noteq> Some (Panic message)) \<and>
     (length quantities = length (TargetCurrencies s) + 1 \<longrightarrow>
        logAssets s marketValues prices quantities = None)"
proof (intro conjI allI impI)
  show len: "int (length (Normalize marketValues)) - 1 = int (length (TargetCurrencies s))"
    using assms by (simp add: length_Normalize)
  show "logAssets s marketValues prices quantities \<noteq> Some (Panic message)" for message
    using len
    by (auto simp: logAssets_def Let_def atInt_def split: option.splits sum.splits if_splits
        dest: logAssetsLoop_panic)
  show "logAssets s marketValues prices quantities = None"
    if "length quantities = length (TargetCurrencies s) + 1"
    using assms that by (rule logAssets_returns)
qed

text \<open>The theorem of C10 at the scenario of the spec.\<close>

theorem logAssets_no_panic_witness:
  "length scenarioMarketValues = length (TargetCurrencies scenario) + 1 \<and>
   length scenarioQuantities = length (TargetCurrencies scenario) + 1 \<and>
   Mul scenarioPrices scenarioQuantities = scenarioMarketValues \<and>
   logAssets scenario scenarioMarketValues scenarioPrices scenarioQuantities = None"
proof -
  have mv: "length scenarioMarketValues = length (TargetCurrencies scenario) + 1"
    by (simp add: example_defs)
  have qs: "length scenarioQuantities = length (TargetCurrencies scenario) + 1"
    by (simp add: example_defs)
  have product: "Mul scenarioPrices scenarioQuantities = scenarioMarketValues"
    by (simp add: example_defs Mul_def)
  from logAssets_no_panic [OF mv, of scenarioPrices scenarioQuantities] qs
  have "logAssets scenario scenarioMarketValues scenarioPrices scenarioQuantities = None"
    by blast
  with mv qs product show ?thesis
    by (intro conjI)
qed

end
